theory Spec2Isabelle
  imports Complex_Main
begin

section \<open>Python values, exceptions and effects\<close>

text \<open>
  A Python \<open>str\<close> is a sequence of Unicode code points, so a string is a list of
  code points (natural numbers); \<open>py\<close> embeds an ASCII literal and \<open>nl\<close> is the
  one-character string \<open>"\n"\<close>.
\<close>

type_synonym pystr = "nat list"

definition py :: "string \<Rightarrow> pystr" where
  "py cs = map of_char cs"

definition nl :: pystr where
  "nl = [10]"

text \<open>
  The values that cross the boundaries of the pipeline (decoded JSON, the payloads of the
  search SDKs): \<open>None\<close>, booleans, integers, strings, lists, dictionaries keyed by
  strings (as association lists, the first binding of a key counts) and objects that
  carry data attributes only. Floating-point numbers are left out: the code only tests
  such values for truth and type.
\<close>

datatype pyval =
    PNone
  | PBool bool
  | PInt int
  | PStr pystr
  | PList "pyval list"
  | PDict "(pystr \<times> pyval) list"
  | PObj "(pystr \<times> pyval) list"

text \<open>
  The exceptions the code can meet. All of them are instances of \<open>Exception\<close>.
  \<open>JSONDecodeError\<close> carries the decoder's message; \<open>ValueError\<close> is a
  \<open>ValueError\<close> that is no \<open>JSONDecodeError\<close>; \<open>SDKError\<close> is any exception
  raised by the model client or by a search SDK, with its message.
\<close>

datatype exn =
    JSONDecodeError pystr
  | ValueError pystr
  | RecursionError
  | TypeError
  | AttributeError
  | IndexError
  | KeyError
  | SDKError pystr

fun is_JSONDecodeError :: "exn \<Rightarrow> bool" where
  "is_JSONDecodeError (JSONDecodeError m) = True"
| "is_JSONDecodeError e = False"

subsection \<open>Operations on values\<close>

text \<open>Truth value testing (\<open>if v:\<close>, \<open>a or b\<close>).\<close>

fun truthy :: "pyval \<Rightarrow> bool" where
  "truthy PNone = False"
| "truthy (PBool b) = b"
| "truthy (PInt i) = (i \<noteq> 0)"
| "truthy (PStr s) = (s \<noteq> [])"
| "truthy (PList xs) = (xs \<noteq> [])"
| "truthy (PDict kvs) = (kvs \<noteq> [])"
| "truthy (PObj attrs) = True"

fun isinstance_dict :: "pyval \<Rightarrow> bool" where
  "isinstance_dict (PDict kvs) = True"
| "isinstance_dict v = False"

fun isinstance_list :: "pyval \<Rightarrow> bool" where
  "isinstance_list (PList xs) = True"
| "isinstance_list v = False"

text \<open>\<open>v.get(key, default)\<close>: only a dictionary has the method.\<close>

fun py_get :: "pyval \<Rightarrow> pystr \<Rightarrow> pyval \<Rightarrow> exn + pyval" where
  "py_get (PDict kvs) k d = Inr (case map_of kvs k of Some v \<Rightarrow> v | None \<Rightarrow> d)"
| "py_get v k d = Inl AttributeError"

text \<open>\<open>key in v\<close> for a dictionary \<open>v\<close>.\<close>

fun dict_has :: "pyval \<Rightarrow> pystr \<Rightarrow> bool" where
  "dict_has (PDict kvs) k = (map_of kvs k \<noteq> None)"
| "dict_has v k = False"

text \<open>\<open>v[key]\<close> with a string key.\<close>

fun py_subscript :: "pyval \<Rightarrow> pystr \<Rightarrow> exn + pyval" where
  "py_subscript (PDict kvs) k = (case map_of kvs k of Some v \<Rightarrow> Inr v | None \<Rightarrow> Inl KeyError)"
| "py_subscript v k = Inl TypeError"

text \<open>
  \<open>getattr(v, name, default)\<close>. Of the attributes the code reads (\<open>url\<close>,
  \<open>markdown\<close>, \<open>content\<close>, \<open>title\<close>, \<open>metadata\<close>) the built-in types have one:
  \<open>str.title\<close>, a bound method, which is an object with none of these attributes.
\<close>

fun py_getattr :: "pyval \<Rightarrow> pystr \<Rightarrow> pyval \<Rightarrow> pyval" where
  "py_getattr (PObj attrs) n d = (case map_of attrs n of Some v \<Rightarrow> v | None \<Rightarrow> d)"
| "py_getattr (PStr s) n d = (if n = py ''title'' then PObj [] else d)"
| "py_getattr v n d = d"

text \<open>The items a \<open>for\<close> loop over \<open>v\<close> visits.\<close>

fun py_iter :: "pyval \<Rightarrow> exn + pyval list" where
  "py_iter (PList xs) = Inr xs"
| "py_iter (PDict kvs) = Inr (map (\<lambda>kv. PStr (fst kv)) kvs)"
| "py_iter (PStr s) = Inr (map (\<lambda>c. PStr [c]) s)"
| "py_iter v = Inl TypeError"

text \<open>
  \<open>a + b\<close> where one operand is known to be a string, as at every \<open>+\<close> of the
  code: two strings concatenate, anything else is a \<open>TypeError\<close>.
\<close>

fun py_add :: "pyval \<Rightarrow> pyval \<Rightarrow> exn + pyval" where
  "py_add (PStr a) (PStr b) = Inr (PStr (a @ b))"
| "py_add a b = Inl TypeError"

subsection \<open>The world outside: model client, search SDKs, environment\<close>

text \<open>
  A chat-completion request as \<open>openai_client.chat.completions.create\<close> receives it,
  and the part of its response the code reads: \<open>choices[i].message.content\<close>
  (a string, or \<open>None\<close>).
\<close>

record chat_request =
  model :: pystr
  messages :: "(pystr \<times> pystr) list"
  temperature :: "rat option"
  top_p :: "rat option"
  response_format :: "(pystr \<times> pystr) list"

record chat_response =
  choices :: "pyval list"

text \<open>The keyword arguments of \<open>FirecrawlApp.search\<close> and \<open>TavilyClient.search\<close>.\<close>

record firecrawl_request =
  fc_query :: pyval

record tavily_request =
  tv_query :: pyval
  search_depth :: pystr
  topic :: pystr
  days :: int
  max_results :: int
  include_answer :: bool
  include_raw_content :: bool

text \<open>
  Everything the code calls and does not define. A call either raises or returns.
  \<open>json_loads\<close> is \<open>json.loads\<close> on a string: on a text that is not JSON it
  raises a \<open>JSONDecodeError\<close>, and it can raise other exceptions (a
  \<open>RecursionError\<close> on deep nesting, a plain \<open>ValueError\<close> on an over-long
  integer). \<open>environ\<close> is the process environment, \<open>system_prompt\<close> the result of
  \<open>prompt.system_prompt()\<close>, \<open>str_of\<close> the text \<open>str(v)\<close> of a value that is
  not a string. The SDK clients are taken as constructed.
\<close>

record env =
  chat_create :: "chat_request \<Rightarrow> exn + chat_response"
  firecrawl_app_search :: "firecrawl_request \<Rightarrow> exn + pyval"
  tavily_client_search :: "tavily_request \<Rightarrow> exn + pyval"
  json_loads :: "pystr \<Rightarrow> exn + pyval"
  environ :: "pystr \<Rightarrow> pystr option"
  system_prompt :: pystr
  str_of :: "pyval \<Rightarrow> pystr"

text \<open>
  What a run does besides returning: the calls it issues, in order, and the lines it
  logs or prints. A logged f-string is kept as its parts.
\<close>

datatype frag =
    Lit pystr
  | Val pyval
  | Exc exn
  | TypeOf pyval

datatype event =
    ChatCall chat_request
  | FirecrawlCall firecrawl_request
  | TavilyCall tavily_request
  | LogInfo "frag list"
  | LogError "frag list"
  | Print "frag list"

fun is_model_call :: "event \<Rightarrow> bool" where
  "is_model_call (ChatCall r) = True"
| "is_model_call e = False"

fun is_search_call :: "event \<Rightarrow> bool" where
  "is_search_call (FirecrawlCall r) = True"
| "is_search_call (TavilyCall r) = True"
| "is_search_call e = False"

definition os_getenv :: "env \<Rightarrow> pystr \<Rightarrow> pystr \<Rightarrow> pystr" where
  "os_getenv env name dflt = (case environ env name of Some v \<Rightarrow> v | None \<Rightarrow> dflt)"

text \<open>\<open>str(v)\<close>, as an f-string interpolates a value.\<close>

definition py_str :: "env \<Rightarrow> pyval \<Rightarrow> pystr" where
  "py_str env v = (case v of PStr s \<Rightarrow> s | _ \<Rightarrow> str_of env v)"

text \<open>\<open>response.choices[0].message.content\<close>.\<close>

definition first_content :: "chat_response \<Rightarrow> exn + pyval" where
  "first_content response = (case choices response of [] \<Rightarrow> Inl IndexError | c # cs \<Rightarrow> Inr c)"

text \<open>\<open>json.loads(content)\<close>: a \<open>TypeError\<close> when the content is not a string.\<close>

definition loads :: "env \<Rightarrow> pyval \<Rightarrow> exn + pyval" where
  "loads env content =
     (case content of
        PStr s \<Rightarrow> json_loads env s
      | _ \<Rightarrow> Inl TypeError)"

text \<open>
  A \<open>for\<close> loop that appends \<open>f item\<close> for every item, and stops at the first
  exception.
\<close>

fun for_each :: "('a \<Rightarrow> exn + 'b) \<Rightarrow> 'a list \<Rightarrow> exn + 'b list" where
  "for_each f [] = Inr []"
| "for_each f (x # xs) =
     (case f x of
        Inl e \<Rightarrow> Inl e
      | Inr y \<Rightarrow> (case for_each f xs of Inl e \<Rightarrow> Inl e | Inr ys \<Rightarrow> Inr (y # ys)))"

text \<open>\<open>sep.join(parts)\<close>.\<close>

fun join :: "pystr \<Rightarrow> pystr list \<Rightarrow> pystr" where
  "join sep [] = []"
| "join sep [x] = x"
| "join sep (x # y # ys) = x @ sep @ join sep (y # ys)"

section \<open>translate.py\<close>

definition is_cjk :: "nat \<Rightarrow> bool" where
  "is_cjk char = (0x4e00 \<le> char \<and> char \<le> 0x9fff)"

definition translation_request :: "env \<Rightarrow> pystr \<Rightarrow> chat_request" where
  "translation_request env query =
     \<lparr> model = os_getenv env (py ''TRANSLATION_MODEL'') (py ''gpt-4o-mini''),
       messages =
         [(py ''system'',
           py ''You are a professional translator. Translate the given Chinese text to English accurately and naturally.''),
          (py ''user'',
           py ''Translate the following query to English: '' @ query @
           py ''Return the response as a JSON object with a 'translation' field.'')],
       temperature = Some (2 / 10),
       top_p = Some (75 / 100),
       response_format = [(py ''type'', py ''json_object'')] \<rparr>"

text \<open>The line \<open>logger.info(f"Translated '{query}' to '{translated_text}'")\<close>.\<close>

definition translated_line :: "pystr \<Rightarrow> pyval \<Rightarrow> event" where
  "translated_line query translated_text =
     LogInfo [Lit (py ''Translated '' @ [39]), Val (PStr query), Lit ([39] @ py '' to '' @ [39]),
              Val translated_text, Lit [39]]"

text \<open>
  The body of the outer \<open>try\<close> of \<open>translate_to_english\<close>: \<open>Inl\<close> is an exception
  that reaches the outer handler. The inner handler takes a \<open>JSONDecodeError\<close> only.
\<close>

definition translate_try :: "env \<Rightarrow> pystr \<Rightarrow> (exn + pyval) \<times> event list" where
  "translate_try env query =
     (if \<not> list_ex is_cjk query then (Inr (PStr query), [])
      else
        let req = translation_request env query in
        case chat_create env req of
          Inl e \<Rightarrow> (Inl e, [ChatCall req])
        | Inr response \<Rightarrow>
            (case first_content response of
               Inl e \<Rightarrow> (Inl e, [ChatCall req])
             | Inr content \<Rightarrow>
                 (case loads env content of
                    Inl e \<Rightarrow>
                      if is_JSONDecodeError e then
                        (Inr (PStr query),
                         [ChatCall req,
                          LogError [Lit (py ''Error parsing JSON response: ''), Exc e],
                          translated_line query (PStr query)])
                      else (Inl e, [ChatCall req])
                  | Inr result \<Rightarrow>
                      (case py_get result (py ''translation'') (PStr query) of
                         Inl e \<Rightarrow> (Inl e, [ChatCall req])
                       | Inr translated_text \<Rightarrow>
                           (Inr translated_text,
                            [ChatCall req, translated_line query translated_text])))))"

text \<open>The function: the outer handler takes every exception and returns the query.\<close>

definition translate_to_english :: "env \<Rightarrow> pystr \<Rightarrow> (exn + pyval) \<times> event list" where
  "translate_to_english env query =
     (case translate_try env query of
        (Inl e, tr) \<Rightarrow>
          (Inr (PStr query), tr @ [LogError [Lit (py ''Translation error: ''), Exc e]])
      | (Inr v, tr) \<Rightarrow> (Inr v, tr))"

section \<open>search\_engine.py\<close>

datatype SearchEngineType = FIRECRAWL | TAVILY

text \<open>The result every failure path returns: \<open>{"data": []}\<close>.\<close>

definition empty_response :: pyval where
  "empty_response = PDict [(py ''data'', PList [])]"

subsection \<open>Firecrawl\<close>

text \<open>One round of the loop over a list response: the entry appended for \<open>item\<close>.\<close>

definition firecrawl_item :: "pyval \<Rightarrow> exn + pyval" where
  "firecrawl_item item =
     (if isinstance_dict item then Inr item
      else
        let url = py_getattr item (py ''url'') (PStr []);
            md = py_getattr item (py ''markdown'') (PStr []);
            markdown = (if truthy md then md else py_getattr item (py ''content'') (PStr []));
            t = py_getattr item (py ''title'') (PStr [])
        in case (if truthy t then Inr t
                 else py_get (py_getattr item (py ''metadata'') (PDict [])) (py ''title'') (PStr [])) of
             Inl e \<Rightarrow> Inl e
           | Inr title \<Rightarrow>
               Inr (PDict [(py ''url'', url), (py ''markdown'', markdown), (py ''title'', title)]))"

text \<open>The \<open>if\<close>/\<open>elif\<close> chain over the shape of the SDK's response.\<close>

definition firecrawl_format :: "pyval \<Rightarrow> (exn + pyval) \<times> event list" where
  "firecrawl_format response =
     (if isinstance_dict response \<and> dict_has response (py ''data'') then (Inr response, [])
      else if isinstance_dict response \<and> dict_has response (py ''success'') then
        (case py_get response (py ''data'') (PList []) of
           Inl e \<Rightarrow> (Inl e, [])
         | Inr d \<Rightarrow> (Inr (PDict [(py ''data'', d)]), []))
      else if isinstance_list response then
        (case py_iter response of
           Inl e \<Rightarrow> (Inl e, [])
         | Inr items \<Rightarrow>
             (case for_each firecrawl_item items of
                Inl e \<Rightarrow> (Inl e, [])
              | Inr formatted_data \<Rightarrow> (Inr (PDict [(py ''data'', PList formatted_data)]), [])))
      else
        (Inr empty_response,
         [LogError [Lit (py ''Unexpected response format from Firecrawl: ''), TypeOf response]]))"

text \<open>
  \<open>Firecrawl.search(query, timeout, limit)\<close>. The SDK is called with the query alone.
  The handler logs the exception, and the type of \<open>response\<close> when the name is bound.
\<close>

definition Firecrawl_search :: "env \<Rightarrow> pyval \<Rightarrow> int \<Rightarrow> int \<Rightarrow> (exn + pyval) \<times> event list" where
  "Firecrawl_search env query timeout limit =
     (let req = \<lparr> fc_query = query \<rparr> in
      case firecrawl_app_search env req of
        Inl e \<Rightarrow>
          (Inr empty_response,
           [FirecrawlCall req,
            LogError [Lit (py ''Error searching with Firecrawl: ''), Exc e],
            LogError [Lit (py ''Response type: ''), Lit (py ''N/A'')]])
      | Inr response \<Rightarrow>
          (case firecrawl_format response of
             (Inl e, tr) \<Rightarrow>
               (Inr empty_response,
                FirecrawlCall req # tr @
                [LogError [Lit (py ''Error searching with Firecrawl: ''), Exc e],
                 LogError [Lit (py ''Response type: ''), TypeOf response]])
           | (Inr r, tr) \<Rightarrow> (Inr r, FirecrawlCall req # tr)))"

subsection \<open>Tavily\<close>

definition tavily_request_of :: "pyval \<Rightarrow> int \<Rightarrow> tavily_request" where
  "tavily_request_of query limit =
     \<lparr> tv_query = query,
       search_depth = py ''advanced'',
       topic = py ''general'',
       days = 5,
       max_results = limit,
       include_answer = True,
       include_raw_content = True \<rparr>"

text \<open>One round of the loop over the results: the entry appended for \<open>item\<close>.\<close>

definition tavily_item :: "pyval \<Rightarrow> exn + pyval" where
  "tavily_item item =
     (case py_get item (py ''title'') (PStr []) of
        Inl e \<Rightarrow> Inl e
      | Inr title \<Rightarrow>
     (case py_get item (py ''url'') (PStr []) of
        Inl e \<Rightarrow> Inl e
      | Inr url \<Rightarrow>
     (case py_get item (py ''published_date'') (PStr []) of
        Inl e \<Rightarrow> Inl e
      | Inr published_date \<Rightarrow>
     (case py_add published_date (PStr nl) of
        Inl e \<Rightarrow> Inl e
      | Inr dated \<Rightarrow>
     (case py_get item (py ''content'') (PStr []) of
        Inl e \<Rightarrow> Inl e
      | Inr content \<Rightarrow>
     (case py_add dated content of
        Inl e \<Rightarrow> Inl e
      | Inr markdown \<Rightarrow>
          Inr (PDict [(py ''title'', title), (py ''url'', url), (py ''markdown'', markdown)])))))))"

text \<open>What follows the SDK call inside the \<open>try\<close>.\<close>

definition tavily_format :: "pyval \<Rightarrow> (exn + pyval) \<times> event list" where
  "tavily_format response =
     (case py_get response (py ''results'') (PList []) of
        Inl e \<Rightarrow> (Inl e, [])
      | Inr results \<Rightarrow>
          if truthy results then
            (case py_iter results of
               Inl e \<Rightarrow> (Inl e, [])
             | Inr items \<Rightarrow>
                 (case for_each tavily_item items of
                    Inl e \<Rightarrow> (Inl e, [])
                  | Inr formatted_data \<Rightarrow>
                      (case py_get response (py ''answer'') (PStr []) of
                         Inl e \<Rightarrow> (Inl e, [])
                       | Inr answer \<Rightarrow>
                           (Inr (PDict [(py ''data'', PList formatted_data), (py ''answer'', answer)]),
                            []))))
          else
            (Inr empty_response,
             [LogError [Lit (py ''Unexpected response format from Tavily: ''), Val response]]))"

text \<open>\<open>Tavily.search(query, timeout, limit)\<close>.\<close>

definition Tavily_search :: "env \<Rightarrow> pyval \<Rightarrow> int \<Rightarrow> int \<Rightarrow> (exn + pyval) \<times> event list" where
  "Tavily_search env query timeout limit =
     (let req = tavily_request_of query limit in
      case tavily_client_search env req of
        Inl e \<Rightarrow>
          (Inr empty_response,
           [TavilyCall req, LogError [Lit (py ''Error searching with Tavily: ''), Exc e]])
      | Inr response \<Rightarrow>
          (case tavily_format response of
             (Inl e, tr) \<Rightarrow>
               (Inr empty_response,
                TavilyCall req # tr @ [LogError [Lit (py ''Error searching with Tavily: ''), Exc e]])
           | (Inr r, tr) \<Rightarrow> (Inr r, TavilyCall req # tr)))"

text \<open>\<open>SearchEngine(engine_type).engine.search(query, timeout, limit)\<close>.\<close>

definition engine_search ::
  "env \<Rightarrow> SearchEngineType \<Rightarrow> pyval \<Rightarrow> int \<Rightarrow> int \<Rightarrow> (exn + pyval) \<times> event list" where
  "engine_search env engine_type query timeout limit =
     (case engine_type of
        FIRECRAWL \<Rightarrow> Firecrawl_search env query timeout limit
      | TAVILY \<Rightarrow> Tavily_search env query timeout limit)"

section \<open>feedback.py\<close>

text \<open>
  Modelled from the spec: \<open>trim_prompt\<close> is imported from \<open>ai.providers\<close>, which
  is not among the sources. The spec asks for a truncation to a fixed budget of units of
  text that is bounded, deterministic, never exceeds the budget and keeps a usable
  prefix; the model counts characters and keeps the first \<open>context_size\<close> of them.
\<close>

definition trim_prompt :: "pystr \<Rightarrow> nat \<Rightarrow> pystr" where
  "trim_prompt prompt context_size = take context_size prompt"

text \<open>
  One item of the comprehension that builds \<open>contents\<close>: no entry when
  \<open>item.get("markdown")\<close> is false, else the trimmed markdown. \<open>trim_prompt\<close> is
  given on strings; on another value the call is taken to raise a \<open>TypeError\<close>.
\<close>

definition hit_content :: "pyval \<Rightarrow> exn + pystr list" where
  "hit_content item =
     (case py_get item (py ''markdown'') PNone of
        Inl e \<Rightarrow> Inl e
      | Inr m \<Rightarrow>
          if truthy m then
            (case py_get item (py ''markdown'') (PStr []) of
               Inl e \<Rightarrow> Inl e
             | Inr markdown \<Rightarrow>
                 (case markdown of
                    PStr text \<Rightarrow> Inr [trim_prompt text 15000]
                  | _ \<Rightarrow> Inl TypeError))
          else Inr [])"

text \<open>
  The markdown text of a hit: the string under its \<open>markdown\<close> key, and the empty
  text when there is none.
\<close>

definition markdown_text :: "pyval \<Rightarrow> pystr" where
  "markdown_text hit =
     (case py_get hit (py ''markdown'') (PStr []) of
        Inr (PStr text) \<Rightarrow> text
      | _ \<Rightarrow> [])"

definition contents_of :: "pyval \<Rightarrow> exn + pystr list" where
  "contents_of search_result =
     (case py_subscript search_result (py ''data'') of
        Inl e \<Rightarrow> Inl e
      | Inr data \<Rightarrow>
          (case py_iter data of
             Inl e \<Rightarrow> Inl e
           | Inr items \<Rightarrow>
               (case for_each hit_content items of
                  Inl e \<Rightarrow> Inl e
                | Inr cs \<Rightarrow> Inr (concat cs))))"

definition content_block :: "pystr \<Rightarrow> pystr" where
  "content_block content = py ''<content>'' @ nl @ content @ nl @ py ''</content>''"

text \<open>The context string, from the search result (lines 27 to 35).\<close>

definition build_context :: "env \<Rightarrow> pyval \<Rightarrow> exn + pystr" where
  "build_context env search_result =
     (case contents_of search_result of
        Inl e \<Rightarrow> Inl e
      | Inr contents \<Rightarrow>
          (case py_get search_result (py ''answer'') (PStr []) of
             Inl e \<Rightarrow> Inl e
           | Inr search_answer \<Rightarrow>
               Inr (nl @ nl @ py ''Here is some background information about the topic:'' @ nl @
                    concat (map content_block contents) @
                    py_str env search_answer)))"

text \<open>
  The first part of \<open>generate_feedback\<close> (lines 21 to 36): the query and the context
  the prompt is built from.
\<close>

definition gather_context ::
  "env \<Rightarrow> pystr \<Rightarrow> bool \<Rightarrow> (exn + pyval \<times> pystr) \<times> event list" where
  "gather_context env query use_search_enhancement =
     (if use_search_enhancement then
        (case translate_to_english env query of
           (Inl e, tr1) \<Rightarrow> (Inl e, tr1)
         | (Inr translated, tr1) \<Rightarrow>
             (case engine_search env TAVILY translated 15000 5 of
                (Inl e, tr2) \<Rightarrow> (Inl e, tr1 @ tr2)
              | (Inr search_result, tr2) \<Rightarrow>
                  (case build_context env search_result of
                     Inl e \<Rightarrow> (Inl e, tr1 @ tr2)
                   | Inr context \<Rightarrow>
                       (Inr (translated, context),
                        tr1 @ tr2 @ [LogInfo [Lit (py ''Search result: ''), Val (PStr context)]]))))
      else (Inr (PStr query, []), []))"

definition feedback_request :: "env \<Rightarrow> pyval \<Rightarrow> pystr \<Rightarrow> chat_request" where
  "feedback_request env query context =
     \<lparr> model = os_getenv env (py ''REASONING_MODEL'') (py ''o3-mini''),
       messages =
         [(py ''system'', system_prompt env),
          (py ''user'',
           py ''Given this research topic: '' @ py_str env query @ context @ py '', '' @
           py ''generate 3-5 follow-up questions to better understand the user's research needs. '' @
           py ''Return the response as a JSON object with a 'questions' array field.'')],
       temperature = None,
       top_p = None,
       response_format = [(py ''type'', py ''json_object'')] \<rparr>"

text \<open>
  The last part (lines 56 to 63): the handler takes a \<open>JSONDecodeError\<close> only, prints
  it and the raw content, and returns \<open>[]\<close>.
\<close>

definition parse_questions :: "env \<Rightarrow> chat_response \<Rightarrow> (exn + pyval) \<times> event list" where
  "parse_questions env response =
     (case first_content response of
        Inl e \<Rightarrow> (Inl e, [])
      | Inr content \<Rightarrow>
          (case loads env content of
             Inl e \<Rightarrow>
               if is_JSONDecodeError e then
                 (Inr (PList []),
                  [Print [Lit (py ''Error parsing JSON response: ''), Exc e],
                   Print [Lit (py ''Raw response: ''), Val content]])
               else (Inl e, [])
           | Inr result \<Rightarrow>
               (case py_get result (py ''questions'') (PList []) of
                  Inl e \<Rightarrow> (Inl e, [])
                | Inr qs \<Rightarrow> (Inr qs, []))))"

text \<open>The model call stands outside every \<open>try\<close>.\<close>

definition generate_feedback :: "env \<Rightarrow> pystr \<Rightarrow> bool \<Rightarrow> (exn + pyval) \<times> event list" where
  "generate_feedback env query use_search_enhancement =
     (case gather_context env query use_search_enhancement of
        (Inl e, tr) \<Rightarrow> (Inl e, tr)
      | (Inr (query', context), tr) \<Rightarrow>
          let req = feedback_request env query' context in
          (case chat_create env req of
             Inl e \<Rightarrow> (Inl e, tr @ [ChatCall req])
           | Inr response \<Rightarrow>
               (case parse_questions env response of
                  (r, tr') \<Rightarrow> (r, tr @ ChatCall req # tr'))))"

section \<open>app.py\<close>

record ResearchSession =
  query :: pystr
  questions :: "pystr list"
  answers :: "pystr list"
  report_language :: pystr
  breadth :: int
  depth :: int

definition new_session :: ResearchSession where
  "new_session =
     \<lparr> query = [], questions = [], answers = [], report_language = py ''zh'',
       breadth = 4, depth = 2 \<rparr>"

definition set_query :: "ResearchSession \<Rightarrow> pystr \<Rightarrow> ResearchSession" where
  "set_query self q = self\<lparr>query := q\<rparr>"

definition set_questions :: "ResearchSession \<Rightarrow> pystr list \<Rightarrow> ResearchSession" where
  "set_questions self qs = self\<lparr>questions := qs\<rparr>"

definition set_answers :: "ResearchSession \<Rightarrow> pystr list \<Rightarrow> ResearchSession" where
  "set_answers self as = self\<lparr>answers := as\<rparr>"

definition qa_block :: "pystr \<times> pystr \<Rightarrow> pystr" where
  "qa_block qa = py ''Q: '' @ fst qa @ nl @ py ''A: '' @ snd qa"

definition get_combined_query :: "ResearchSession \<Rightarrow> pystr" where
  "get_combined_query self =
     (let qa_pairs = zip (questions self) (answers self);
          qa_text = join nl (map qa_block qa_pairs)
      in py ''Initial Query: '' @ query self @ nl @
         py ''Follow-up Questions and Answers:'' @ nl @ qa_text)"

text \<open>The characters \<open>str.strip()\<close> removes: those for which \<open>str.isspace\<close> holds.\<close>

definition is_space :: "nat \<Rightarrow> bool" where
  "is_space c =
     ((0x09 \<le> c \<and> c \<le> 0x0D) \<or> (0x1C \<le> c \<and> c \<le> 0x20) \<or> c = 0x85 \<or> c = 0xA0 \<or>
      c = 0x1680 \<or> (0x2000 \<le> c \<and> c \<le> 0x200A) \<or> c = 0x2028 \<or> c = 0x2029 \<or>
      c = 0x202F \<or> c = 0x205F \<or> c = 0x3000)"

definition strip :: "pystr \<Rightarrow> pystr" where
  "strip s = rev (dropWhile is_space (rev (dropWhile is_space s)))"

text \<open>
  \<open>on_start_research_async\<close> up to its call of \<open>research_handler\<close> (lines 91 to 99):
  the answers that are not blank are stored, with the three settings. The handler then
  passes \<open>get_combined_query\<close> of this session to the research engine.
\<close>

definition on_start_research_async ::
  "ResearchSession \<Rightarrow> pystr list \<Rightarrow> pystr \<Rightarrow> int \<Rightarrow> int \<Rightarrow> ResearchSession" where
  "on_start_research_async session args_answers lang b d =
     (let valid_answers = filter (\<lambda>a. a \<noteq> [] \<and> strip a \<noteq> []) args_answers
      in (set_answers session valid_answers)\<lparr>report_language := lang, breadth := b, depth := d\<rparr>)"

section \<open>Scenarios\<close>

text \<open>
  Concrete worlds for the examples below. In \<open>offline_env\<close> every provider call
  raises and no text decodes as JSON.
\<close>

definition offline_env :: env where
  "offline_env =
     \<lparr> chat_create = (\<lambda>r. Inl (SDKError (py ''connection error''))),
       firecrawl_app_search = (\<lambda>r. Inl (SDKError (py ''connection error''))),
       tavily_client_search = (\<lambda>r. Inl (SDKError (py ''connection error''))),
       json_loads = (\<lambda>s. Inl (JSONDecodeError (py ''Expecting value''))),
       environ = (\<lambda>n. None),
       system_prompt = py ''You are an expert researcher.'',
       str_of = (\<lambda>v. py ''?'') \<rparr>"

text \<open>
  In \<open>replying_env body decoded\<close> the model client answers every request with the
  content \<open>body\<close>, on which \<open>json.loads\<close> gives \<open>decoded\<close>.
\<close>

definition replying_env :: "pystr \<Rightarrow> exn + pyval \<Rightarrow> env" where
  "replying_env body decoded =
     offline_env
       \<lparr> chat_create := (\<lambda>r. Inr \<lparr> choices = [PStr body] \<rparr>),
         json_loads :=
           (\<lambda>s. if s = body then decoded else Inl (JSONDecodeError (py ''Expecting value''))) \<rparr>"

text \<open>A query of two CJK ideographs, U+4F60 and U+597D.\<close>

definition ni_hao :: pystr where
  "ni_hao = [0x4F60, 0x597D]"

text \<open>A Firecrawl SDK that answers every search with the same two hits.\<close>

definition two_hits :: "pyval list" where
  "two_hits =
     [PDict [(py ''url'', PStr (py ''https://a.example'')), (py ''markdown'', PStr (py ''alpha'')),
             (py ''title'', PStr (py ''A''))],
      PDict [(py ''url'', PStr (py ''https://b.example'')), (py ''markdown'', PStr (py ''beta'')),
             (py ''title'', PStr (py ''B''))]]"

definition two_hits_env :: env where
  "two_hits_env = offline_env \<lparr> firecrawl_app_search := (\<lambda>r. Inr (PList two_hits)) \<rparr>"

text \<open>The structured response of the example in the spec, and what it decodes to.\<close>

definition questions_body :: pystr where
  \<open>questions_body = py ''{"questions": ["Q1?", "Q2?", "Q3?"]}''\<close>

definition three_questions :: pyval where
  "three_questions = PList [PStr (py ''Q1?''), PStr (py ''Q2?''), PStr (py ''Q3?'')]"

text \<open>
  A Tavily SDK that answers every search with two results whose content is one character
  over the budget, and a short answer; the model client replies as in the example above.
\<close>

definition long_item :: "nat \<Rightarrow> pyval" where
  "long_item c =
     PDict [(py ''title'', PStr (py ''T'')), (py ''url'', PStr (py ''https://a.example'')),
            (py ''content'', PStr (replicate 15001 c))]"

definition long_results_env :: env where
  "long_results_env =
     (replying_env questions_body (Inr (PDict [(py ''questions'', three_questions)])))
       \<lparr> tavily_client_search :=
           (\<lambda>r. Inr (PDict [(py ''results'', PList [long_item 97, long_item 98]),
                            (py ''answer'', PStr (py ''Summary.''))])) \<rparr>"

text \<open>A text of 2000 opening brackets, on which \<open>json.loads\<close> exceeds the recursion limit.\<close>

definition deep_brackets :: pystr where
  "deep_brackets = replicate 2000 91"

section \<open>Strings\<close>

lemma py_eq_iff [simp]: "py a = py b \<longleftrightarrow> a = b"
  unfolding py_def by (simp add: inj_on_def)

lemma py_eq_Nil [simp]: "py a = [] \<longleftrightarrow> a = []"
  by (simp add: py_def)

lemma py_append: "py a @ py b = py (a @ b)" "py a @ py b @ c = py (a @ b) @ c"
  by (simp_all add: py_def)

lemma of_char_lt_256: "(of_char c :: nat) < 256"
  by (cases c) simp

lemma no_cjk_py: "\<not> list_ex is_cjk (py s)"
proof -
  have "\<not> is_cjk (of_char c)" for c :: char
    using of_char_lt_256 [of c] unfolding is_cjk_def by linarith
  then show ?thesis
    by (simp add: py_def list_ex_iff)
qed

section \<open>The language normaliser\<close>

lemma translate_try_no_cjk: "\<not> list_ex is_cjk q \<Longrightarrow> translate_try env q = (Inr (PStr q), [])"
  by (simp add: translate_try_def)

text \<open>
  Claim C4. A string with no character in the range U+4E00 to U+9FFF comes back
  unchanged, and the run leaves no event: no model call is issued (and nothing is logged).
\<close>

theorem translate_detection_purity:
  assumes "\<forall>c \<in> set q. c < 0x4E00 \<or> 0x9FFF < c"
  shows "translate_to_english env q = (Inr (PStr q), [])"
proof -
  have "\<not> list_ex is_cjk q"
    using assms by (auto simp: list_ex_iff is_cjk_def)
  then show ?thesis
    by (simp add: translate_to_english_def translate_try_no_cjk)
qed

theorem translate_detection_purity_witness:
  "\<forall>env. translate_to_english env (py ''What is quantum computing?'')
     = (Inr (PStr (py ''What is quantum computing?'')), [])"
proof
  fix env
  have h: "\<forall>c \<in> set (py ''What is quantum computing?''). c < 0x4E00 \<or> 0x9FFF < c"
    by (simp add: py_def)
  show "translate_to_english env (py ''What is quantum computing?'')
     = (Inr (PStr (py ''What is quantum computing?'')), [])"
    by (rule translate_detection_purity [OF h])
qed

lemma translate_never_raises: "\<exists>v. fst (translate_to_english env q) = Inr v"
  by (simp add: translate_to_english_def split: prod.splits sum.splits)

lemma translate_to_english_cases:
  "fst (translate_to_english env q) =
     (case fst (translate_try env q) of Inl e \<Rightarrow> Inr (PStr q) | Inr v \<Rightarrow> Inr v)"
  by (simp add: translate_to_english_def split: prod.splits sum.splits)

lemma py_get_missing: "\<not> dict_has result k \<Longrightarrow> py_get result k d = Inl AttributeError \<or> py_get result k d = Inr d"
  by (cases result) auto

text \<open>
  Claim C3. When the model call raises, or \<open>json.loads\<close> raises on the content of
  its response (whatever the exception), or the decoded value has no \<open>translation\<close> field (a dictionary without
  the key, or no dictionary at all), \<open>translate_to_english\<close> returns the original
  string and does not raise.
\<close>

theorem translate_fallback:
  assumes "chat_create env (translation_request env q) = Inl e \<or>
           (chat_create env (translation_request env q) = Inr response \<and>
            first_content response = Inr (PStr body) \<and>
            (json_loads env body = Inl err \<or>
             (json_loads env body = Inr result \<and> \<not> dict_has result (py ''translation''))))"
  shows "fst (translate_to_english env q) = Inr (PStr q)"
proof (cases "list_ex is_cjk q")
  case False
  then show ?thesis
    by (simp add: translate_to_english_def translate_try_no_cjk)
next
  case True
  from assms consider
      (raise) "chat_create env (translation_request env q) = Inl e"
    | (unparsable) "chat_create env (translation_request env q) = Inr response"
        "first_content response = Inr (PStr body)" "json_loads env body = Inl err"
    | (no_field) "chat_create env (translation_request env q) = Inr response"
        "first_content response = Inr (PStr body)" "json_loads env body = Inr result"
        "\<not> dict_has result (py ''translation'')"
    by blast
  then show ?thesis
  proof cases
    case raise
    with True show ?thesis
      by (simp add: translate_to_english_cases translate_try_def)
  next
    case unparsable
    with True show ?thesis
      by (cases "is_JSONDecodeError err")
        (simp_all add: translate_to_english_cases translate_try_def loads_def)
  next
    case no_field
    from py_get_missing [OF no_field(4), of "PStr q"] True no_field(1-3) show ?thesis
      by (auto simp: translate_to_english_cases translate_try_def loads_def)
  qed
qed


lemma ni_hao_cjk: "list_ex is_cjk ni_hao"
  by (simp add: ni_hao_def is_cjk_def)

theorem translate_fallback_witness:
  "list_ex is_cjk ni_hao \<and>
   fst (translate_to_english offline_env ni_hao) = Inr (PStr ni_hao) \<and>
   fst (translate_to_english (replying_env (py ''Sorry'') (Inl (JSONDecodeError (py ''Expecting value'')))) ni_hao)
     = Inr (PStr ni_hao) \<and>
   fst (translate_to_english (replying_env (py ''{}'') (Inr (PDict []))) ni_hao) = Inr (PStr ni_hao)"
proof -
  have a: "chat_create offline_env (translation_request offline_env ni_hao)
             = Inl (SDKError (py ''connection error''))"
    by (simp add: offline_env_def)
  let ?e1 = "replying_env (py ''Sorry'') (Inl (JSONDecodeError (py ''Expecting value'')))"
  have b: "chat_create ?e1 (translation_request ?e1 ni_hao) = Inr \<lparr> choices = [PStr (py ''Sorry'')] \<rparr> \<and>
           first_content \<lparr> choices = [PStr (py ''Sorry'')] \<rparr> = Inr (PStr (py ''Sorry'')) \<and>
           json_loads ?e1 (py ''Sorry'') = Inl (JSONDecodeError (py ''Expecting value''))"
    by (simp add: replying_env_def first_content_def)
  let ?e2 = "replying_env (py ''{}'') (Inr (PDict []))"
  have c: "chat_create ?e2 (translation_request ?e2 ni_hao) = Inr \<lparr> choices = [PStr (py ''{}'')] \<rparr> \<and>
           first_content \<lparr> choices = [PStr (py ''{}'')] \<rparr> = Inr (PStr (py ''{}'')) \<and>
           json_loads ?e2 (py ''{}'') = Inr (PDict []) \<and> \<not> dict_has (PDict []) (py ''translation'')"
    by (simp add: replying_env_def first_content_def)
  show ?thesis
    using ni_hao_cjk translate_fallback [of offline_env ni_hao, OF disjI1, OF a]
      translate_fallback [where env = ?e1 and q = ni_hao
         and response = "\<lparr> choices = [PStr (py ''Sorry'')] \<rparr>" and body = "py ''Sorry''"
         and err = "JSONDecodeError (py ''Expecting value'')"]
      translate_fallback [where env = ?e2 and q = ni_hao
         and response = "\<lparr> choices = [PStr (py ''{}'')] \<rparr>" and body = "py ''{}''"
         and result = "PDict []"]
      b c
    by blast
qed

section \<open>The search gateway\<close>

lemma Firecrawl_search_total: "\<exists>r. fst (Firecrawl_search env q t l) = Inr r"
  by (simp add: Firecrawl_search_def Let_def split: sum.splits prod.splits)

lemma Tavily_search_total: "\<exists>r. fst (Tavily_search env q t l) = Inr r"
  by (simp add: Tavily_search_def Let_def split: sum.splits prod.splits)

text \<open>
  Claim C2. For either backend and every query, \<open>search\<close> returns a value; and when
  the SDK call raises, that value is \<open>{"data": []}\<close>: no hits and no
  \<open>answer\<close> key.
\<close>

theorem search_never_raises:
  "(\<exists>r. fst (engine_search env ty q t l) = Inr r) \<and>
   (firecrawl_app_search env \<lparr> fc_query = q \<rparr> = Inl e \<longrightarrow>
      fst (engine_search env FIRECRAWL q t l) = Inr (PDict [(py ''data'', PList [])])) \<and>
   (tavily_client_search env (tavily_request_of q l) = Inl e \<longrightarrow>
      fst (engine_search env TAVILY q t l) = Inr (PDict [(py ''data'', PList [])]))"
proof (intro conjI impI)
  show "\<exists>r. fst (engine_search env ty q t l) = Inr r"
    by (cases ty) (simp_all add: engine_search_def Firecrawl_search_total Tavily_search_total)
next
  assume "firecrawl_app_search env \<lparr> fc_query = q \<rparr> = Inl e"
  then show "fst (engine_search env FIRECRAWL q t l) = Inr (PDict [(py ''data'', PList [])])"
    by (simp add: engine_search_def Firecrawl_search_def empty_response_def)
next
  assume "tavily_client_search env (tavily_request_of q l) = Inl e"
  then show "fst (engine_search env TAVILY q t l) = Inr (PDict [(py ''data'', PList [])])"
    by (simp add: engine_search_def Tavily_search_def empty_response_def)
qed

theorem search_never_raises_witness:
  "fst (engine_search offline_env FIRECRAWL (PStr (py ''llm agents'')) 15000 5)
     = Inr (PDict [(py ''data'', PList [])]) \<and>
   fst (engine_search offline_env TAVILY (PStr (py ''llm agents'')) 15000 5)
     = Inr (PDict [(py ''data'', PList [])])"
proof -
  have a: "firecrawl_app_search offline_env \<lparr> fc_query = PStr (py ''llm agents'') \<rparr>
             = Inl (SDKError (py ''connection error''))"
    by (simp add: offline_env_def)
  have b: "tavily_client_search offline_env (tavily_request_of (PStr (py ''llm agents'')) 5)
             = Inl (SDKError (py ''connection error''))"
    by (simp add: offline_env_def)
  show ?thesis
    using search_never_raises [of offline_env FIRECRAWL "PStr (py ''llm agents'')" 15000 5
        "SDKError (py ''connection error'')"] a b
    by blast
qed

section \<open>The question generator\<close>

lemma py_add_str: "py_add a b = Inr v \<Longrightarrow> \<exists>s. v = PStr s"
  by (cases a; cases b) auto

lemma tavily_item_shape:
  assumes "tavily_item item = Inr h"
  shows "\<exists>t u m. h = PDict [(py ''title'', t), (py ''url'', u), (py ''markdown'', PStr m)]"
  using assms unfolding tavily_item_def
  by (auto split: sum.splits dest: py_add_str)

lemma hit_content_tavily:
  "hit_content (PDict [(py ''title'', t), (py ''url'', u), (py ''markdown'', PStr m)])
     = Inr (if m = [] then [] else [trim_prompt m 15000])"
  by (simp add: hit_content_def)

lemma for_each_hit_content_tavily:
  "for_each tavily_item items = Inr fd \<Longrightarrow> \<exists>cs. for_each hit_content fd = Inr cs"
proof (induction items arbitrary: fd)
  case Nil
  then show ?case by simp
next
  case (Cons item items)
  from Cons.prems obtain h hs where h: "tavily_item item = Inr h"
    and hs: "for_each tavily_item items = Inr hs" and fd: "fd = h # hs"
    by (auto split: sum.splits)
  from Cons.IH [OF hs] obtain cs where cs: "for_each hit_content hs = Inr cs" ..
  from tavily_item_shape [OF h] obtain t u m where
    "h = PDict [(py ''title'', t), (py ''url'', u), (py ''markdown'', PStr m)]" by blast
  with cs fd show ?case
    by (simp add: hit_content_tavily)
qed

lemma build_context_empty_response:
  "build_context env empty_response
     = Inr (nl @ nl @ py ''Here is some background information about the topic:'' @ nl)"
  by (simp add: build_context_def contents_of_def empty_response_def py_str_def)

lemma build_context_tavily:
  assumes "fst (Tavily_search env q t l) = Inr sr"
  shows "\<exists>ctx. build_context env sr = Inr ctx"
proof (cases "tavily_client_search env (tavily_request_of q l)")
  case (Inl e)
  with assms have "sr = empty_response"
    by (simp add: Tavily_search_def)
  then show ?thesis
    by (simp add: build_context_empty_response)
next
  case (Inr response)
  show ?thesis
  proof (cases "fst (tavily_format response)")
    case (Inl e)
    with Inr assms have "sr = empty_response"
      by (cases "tavily_format response") (auto simp: Tavily_search_def Let_def)
    then show ?thesis
      by (simp add: build_context_empty_response)
  next
    case r: (Inr r)
    with Inr assms have sr: "sr = r"
      by (cases "tavily_format response") (auto simp: Tavily_search_def Let_def)
    from r consider (empty) "r = empty_response"
      | (hits) items fd a where "for_each tavily_item items = Inr fd"
          "r = PDict [(py ''data'', PList fd), (py ''answer'', a)]"
      unfolding tavily_format_def
      by (auto split: sum.splits if_splits)
    then show ?thesis
    proof cases
      case empty
      with sr show ?thesis
        by (simp add: build_context_empty_response)
    next
      case hits
      from for_each_hit_content_tavily [OF hits(1)] obtain cs
        where "for_each hit_content fd = Inr cs" ..
      with hits(2) sr show ?thesis
        by (simp add: build_context_def contents_of_def)
    qed
  qed
qed

lemma gather_context_total: "\<exists>q' ctx. fst (gather_context env q use) = Inr (q', ctx)"
proof (cases use)
  case False
  then show ?thesis by (simp add: gather_context_def)
next
  case True
  obtain v where v: "fst (translate_to_english env q) = Inr v"
    using translate_never_raises by blast
  obtain sr where sr: "fst (Tavily_search env v 15000 5) = Inr sr"
    using Tavily_search_total by blast
  obtain ctx where "build_context env sr = Inr ctx"
    using build_context_tavily [OF sr] ..
  with True v sr show ?thesis
    by (auto simp: gather_context_def engine_search_def split: prod.splits sum.splits)
qed

lemma gather_context_off: "gather_context env q False = (Inr (PStr q, []), [])"
  by (simp add: gather_context_def)

lemma generate_feedback_after_context:
  assumes "gather_context env q use = (Inr (q', ctx), tr)"
  shows "generate_feedback env q use =
           (case chat_create env (feedback_request env q' ctx) of
              Inl e \<Rightarrow> (Inl e, tr @ [ChatCall (feedback_request env q' ctx)])
            | Inr response \<Rightarrow>
                (fst (parse_questions env response),
                 tr @ ChatCall (feedback_request env q' ctx) # snd (parse_questions env response)))"
  using assms by (simp add: generate_feedback_def Let_def split: sum.splits prod.splits)

lemma generate_feedback_propagates:
  assumes "fst (gather_context env q use) = Inr (q', ctx)"
    and "chat_create env (feedback_request env q' ctx) = Inl e"
  shows "fst (generate_feedback env q use) = Inl e"
proof -
  obtain tr where "gather_context env q use = (Inr (q', ctx), tr)"
    using assms(1) by (cases "gather_context env q use") simp
  from generate_feedback_after_context [OF this] assms(2) show ?thesis by simp
qed


lemma generate_feedback_off:
  "generate_feedback env q False =
     (case chat_create env (feedback_request env (PStr q) []) of
        Inl e \<Rightarrow> (Inl e, [ChatCall (feedback_request env (PStr q) [])])
      | Inr response \<Rightarrow>
          (fst (parse_questions env response),
           ChatCall (feedback_request env (PStr q) []) # snd (parse_questions env response)))"
  by (simp add: generate_feedback_after_context [OF gather_context_off] split: sum.splits)

lemma parse_questions_no_calls:
  "filter is_model_call (snd (parse_questions env response)) = [] \<and>
   filter is_search_call (snd (parse_questions env response)) = []"
  by (simp add: parse_questions_def split: sum.splits)

text \<open>
  Claim C1 asks that \<open>generate_feedback\<close> never raises. The model call of
  \<open>generate_feedback\<close> stands outside every \<open>try\<close>: when the client raises, with
  or without search enhancement, the exception reaches the caller.
\<close>

theorem generate_feedback_model_failure:
  "fst (generate_feedback offline_env (py ''What is quantum computing?'') False)
     = Inl (SDKError (py ''connection error'')) \<and>
   fst (generate_feedback offline_env (py ''What is quantum computing?'') True)
     = Inl (SDKError (py ''connection error''))"
proof -
  have fails: "chat_create offline_env r = Inl (SDKError (py ''connection error''))" for r
    by (simp add: offline_env_def)
  obtain q1 c1 where g1: "fst (gather_context offline_env (py ''What is quantum computing?'') False)
      = Inr (q1, c1)"
    using gather_context_total by blast
  obtain q2 c2 where g2: "fst (gather_context offline_env (py ''What is quantum computing?'') True)
      = Inr (q2, c2)"
    using gather_context_total by blast
  show ?thesis
    using generate_feedback_propagates [OF g1 fails] generate_feedback_propagates [OF g2 fails]
    by simp
qed

text \<open>
  What the last part does right. Let the run have prepared the query \<open>q'\<close> and the
  context \<open>ctx\<close> (it always prepares some, \<open>gather_context_total\<close>) and let the
  final model call return a response with the content \<open>body\<close>. When \<open>json.loads\<close>
  raises a \<open>JSONDecodeError\<close> on \<open>body\<close>, \<open>generate_feedback\<close> returns \<open>[]\<close>
  and prints the raw content; when \<open>body\<close> decodes to an object without a
  \<open>questions\<close> key, it returns \<open>[]\<close> as well.
\<close>

lemma feedback_malformed_response:
  assumes "fst (gather_context env q use) = Inr (q', ctx)"
    and "chat_create env (feedback_request env q' ctx) = Inr response"
    and "first_content response = Inr (PStr body)"
  shows "(json_loads env body = Inl (JSONDecodeError msg) \<longrightarrow>
            fst (generate_feedback env q use) = Inr (PList []) \<and>
            Print [Lit (py ''Raw response: ''), Val (PStr body)]
              \<in> set (snd (generate_feedback env q use))) \<and>
         (json_loads env body = Inr (PDict kvs) \<and> map_of kvs (py ''questions'') = None \<longrightarrow>
            fst (generate_feedback env q use) = Inr (PList []))"
proof -
  obtain tr where "gather_context env q use = (Inr (q', ctx), tr)"
    using assms(1) by (cases "gather_context env q use") simp
  from generate_feedback_after_context [OF this] assms(2)
  have gf: "generate_feedback env q use =
              (fst (parse_questions env response),
               tr @ ChatCall (feedback_request env q' ctx) # snd (parse_questions env response))"
    by simp
  have "json_loads env body = Inl (JSONDecodeError msg) \<Longrightarrow>
          parse_questions env response =
            (Inr (PList []),
             [Print [Lit (py ''Error parsing JSON response: ''), Exc (JSONDecodeError msg)],
              Print [Lit (py ''Raw response: ''), Val (PStr body)]])"
    using assms(3) by (simp add: parse_questions_def loads_def)
  moreover have "json_loads env body = Inr (PDict kvs) \<Longrightarrow> map_of kvs (py ''questions'') = None \<Longrightarrow>
          parse_questions env response = (Inr (PList []), [])"
    using assms(3) by (simp add: parse_questions_def loads_def)
  ultimately show ?thesis
    by (auto simp: gf)
qed

text \<open>
  What it misses. The handler takes a \<open>JSONDecodeError\<close> only: a content that decodes
  to a value other than an object makes \<open>result.get\<close> raise, and any other exception of
  \<open>json.loads\<close> passes the handler too.
\<close>

lemma generate_feedback_non_object:
  assumes "fst (gather_context env q use) = Inr (q', ctx)"
    and "chat_create env (feedback_request env q' ctx) = Inr response"
    and "first_content response = Inr (PStr body)"
    and "json_loads env body = Inr v"
    and "\<not> isinstance_dict v"
  shows "fst (generate_feedback env q use) = Inl AttributeError"
proof -
  obtain tr where "gather_context env q use = (Inr (q', ctx), tr)"
    using assms(1) by (cases "gather_context env q use") simp
  from generate_feedback_after_context [OF this] assms(2)
  have "fst (generate_feedback env q use) = fst (parse_questions env response)"
    by simp
  moreover from assms(5) have "py_get v (py ''questions'') (PList []) = Inl AttributeError"
    by (cases v) simp_all
  ultimately show ?thesis
    using assms(3,4) by (simp add: parse_questions_def loads_def)
qed

lemma generate_feedback_decoder_error:
  assumes "fst (gather_context env q use) = Inr (q', ctx)"
    and "chat_create env (feedback_request env q' ctx) = Inr response"
    and "first_content response = Inr (PStr body)"
    and "json_loads env body = Inl e"
    and "\<not> is_JSONDecodeError e"
  shows "fst (generate_feedback env q use) = Inl e"
proof -
  obtain tr where "gather_context env q use = (Inr (q', ctx), tr)"
    using assms(1) by (cases "gather_context env q use") simp
  from generate_feedback_after_context [OF this] assms(2)
  have "fst (generate_feedback env q use) = fst (parse_questions env response)"
    by simp
  then show ?thesis
    using assms(3,4,5) by (simp add: parse_questions_def loads_def)
qed

text \<open>
  Claim C6 asks that \<open>generate_feedback\<close> returns \<open>[]\<close>, without raising, when the
  final response is not valid JSON and when it is valid JSON without a \<open>questions\<close>
  field. The contents \<open>[]\<close> and \<open>null\<close> are valid JSON without that field, and
  \<open>generate_feedback\<close> raises an \<open>AttributeError\<close> on them, with the search
  enhancement off or on; a text of 2000 opening brackets is not valid JSON, and the
  \<open>RecursionError\<close> of \<open>json.loads\<close> reaches the caller.
\<close>

theorem feedback_unhandled_response:
  "fst (generate_feedback (replying_env (py ''[]'') (Inr (PList [])))
          (py ''What is quantum computing?'') False) = Inl AttributeError \<and>
   fst (generate_feedback (replying_env (py ''null'') (Inr PNone))
          (py ''What is quantum computing?'') True) = Inl AttributeError \<and>
   fst (generate_feedback (replying_env deep_brackets (Inl RecursionError))
          (py ''What is quantum computing?'') False) = Inl RecursionError"
proof -
  let ?e1 = "replying_env (py ''[]'') (Inr (PList []))"
  let ?e2 = "replying_env (py ''null'') (Inr PNone)"
  let ?e3 = "replying_env deep_brackets (Inl RecursionError)"
  let ?q = "py ''What is quantum computing?''"
  have off1: "fst (gather_context ?e1 ?q False) = Inr (PStr ?q, [])"
    and off3: "fst (gather_context ?e3 ?q False) = Inr (PStr ?q, [])"
    by (simp_all add: gather_context_off)
  obtain q' ctx where on2: "fst (gather_context ?e2 ?q True) = Inr (q', ctx)"
    using gather_context_total by blast
  have c1: "chat_create ?e1 r = Inr \<lparr> choices = [PStr (py ''[]'')] \<rparr>"
    and c2: "chat_create ?e2 r = Inr \<lparr> choices = [PStr (py ''null'')] \<rparr>"
    and c3: "chat_create ?e3 r = Inr \<lparr> choices = [PStr deep_brackets] \<rparr>" for r
    by (simp_all add: replying_env_def)
  have f: "first_content \<lparr> choices = [PStr b] \<rparr> = Inr (PStr b)" for b
    by (simp add: first_content_def)
  have j1: "json_loads ?e1 (py ''[]'') = Inr (PList [])"
    and j2: "json_loads ?e2 (py ''null'') = Inr PNone"
    and j3: "json_loads ?e3 deep_brackets = Inl RecursionError"
    by (simp_all add: replying_env_def)
  have "fst (generate_feedback ?e1 ?q False) = Inl AttributeError"
    by (rule generate_feedback_non_object [OF off1 c1 f j1]) simp
  moreover have "fst (generate_feedback ?e2 ?q True) = Inl AttributeError"
    by (rule generate_feedback_non_object [OF on2 c2 f j2]) simp
  moreover have "fst (generate_feedback ?e3 ?q False) = Inl RecursionError"
    by (rule generate_feedback_decoder_error [OF off3 c3 f j3]) simp
  ultimately show ?thesis by blast
qed

text \<open>
  Claim C9. With \<open>use_search_enhancement\<close> false a run issues one model call, with
  the empty context in its prompt, and no search call (the translation would be a second
  model call); and when the content of the response decodes to an object with a
  \<open>questions\<close> field, the run returns that field and does nothing else.
\<close>

theorem feedback_without_search:
  "filter is_model_call (snd (generate_feedback env q False))
     = [ChatCall (feedback_request env (PStr q) [])] \<and>
   filter is_search_call (snd (generate_feedback env q False)) = [] \<and>
   (chat_create env (feedback_request env (PStr q) []) = Inr response \<and>
    first_content response = Inr (PStr body) \<and>
    json_loads env body = Inr (PDict kvs) \<and> map_of kvs (py ''questions'') = Some qs \<longrightarrow>
      generate_feedback env q False = (Inr qs, [ChatCall (feedback_request env (PStr q) [])]))"
proof (intro conjI impI)
  show "filter is_model_call (snd (generate_feedback env q False))
     = [ChatCall (feedback_request env (PStr q) [])]"
    by (simp add: generate_feedback_off parse_questions_no_calls split: sum.splits)
  show "filter is_search_call (snd (generate_feedback env q False)) = []"
    by (simp add: generate_feedback_off parse_questions_no_calls split: sum.splits)
next
  assume "chat_create env (feedback_request env (PStr q) []) = Inr response \<and>
    first_content response = Inr (PStr body) \<and>
    json_loads env body = Inr (PDict kvs) \<and> map_of kvs (py ''questions'') = Some qs"
  then show "generate_feedback env q False = (Inr qs, [ChatCall (feedback_request env (PStr q) [])])"
    by (simp add: generate_feedback_off parse_questions_def loads_def)
qed

theorem feedback_without_search_witness:
  \<open>generate_feedback (replying_env questions_body (Inr (PDict [(py ''questions'', three_questions)])))
     (py ''What is quantum computing?'') False
   = (Inr three_questions,
      [ChatCall
        \<lparr> model = py ''o3-mini'',
          messages =
            [(py ''system'', py ''You are an expert researcher.''),
             (py ''user'',
              py ''Given this research topic: What is quantum computing?, generate 3-5 follow-up questions to better understand the user's research needs. Return the response as a JSON object with a 'questions' array field.'')],
          temperature = None, top_p = None,
          response_format = [(py ''type'', py ''json_object'')] \<rparr>])\<close>
proof -
  let ?env = "replying_env questions_body (Inr (PDict [(py ''questions'', three_questions)]))"
  let ?q = "py ''What is quantum computing?''"
  have h: "chat_create ?env (feedback_request ?env (PStr ?q) []) = Inr \<lparr> choices = [PStr questions_body] \<rparr> \<and>
    first_content \<lparr> choices = [PStr questions_body] \<rparr> = Inr (PStr questions_body) \<and>
    json_loads ?env questions_body = Inr (PDict [(py ''questions'', three_questions)]) \<and>
    map_of [(py ''questions'', three_questions)] (py ''questions'') = Some three_questions"
    by (simp add: replying_env_def first_content_def)
  have r: "feedback_request ?env (PStr ?q) [] =
        \<lparr> model = py ''o3-mini'',
          messages =
            [(py ''system'', py ''You are an expert researcher.''),
             (py ''user'',
              py ''Given this research topic: What is quantum computing?, generate 3-5 follow-up questions to better understand the user's research needs. Return the response as a JSON object with a 'questions' array field.'')],
          temperature = None, top_p = None,
          response_format = [(py ''type'', py ''json_object'')] \<rparr>"
    by (simp add: feedback_request_def replying_env_def offline_env_def os_getenv_def py_str_def py_append)
  from feedback_without_search [where env = ?env and q = ?q and body = questions_body
      and response = "\<lparr> choices = [PStr questions_body] \<rparr>"
      and kvs = "[(py ''questions'', three_questions)]" and qs = three_questions] h
  have "generate_feedback ?env ?q False = (Inr three_questions, [ChatCall (feedback_request ?env (PStr ?q) [])])"
    by blast
  then show ?thesis
    by (simp only: r)
qed


section \<open>The context builder\<close>

lemma hit_content_markdown_text:
  assumes "hit_content hit = Inr c"
  shows "c = (if markdown_text hit = [] then [] else [trim_prompt (markdown_text hit) 15000])"
proof -
  from assms obtain kvs where hit: "hit = PDict kvs"
    by (cases hit) (auto simp: hit_content_def)
  show ?thesis
  proof (cases "map_of kvs (py ''markdown'')")
    case None
    with assms hit show ?thesis
      by (simp add: hit_content_def markdown_text_def)
  next
    case (Some m)
    with assms hit show ?thesis
      by (cases m) (auto simp: hit_content_def markdown_text_def split: if_splits)
  qed
qed

lemma for_each_hit_content:
  "for_each hit_content hits = Inr cs \<Longrightarrow>
     concat cs = map (\<lambda>hit. trim_prompt (markdown_text hit) 15000)
                   (filter (\<lambda>hit. markdown_text hit \<noteq> []) hits)"
proof (induction hits arbitrary: cs)
  case Nil
  then show ?case by simp
next
  case (Cons hit hits)
  from Cons.prems obtain c cs' where c: "hit_content hit = Inr c"
    and cs': "for_each hit_content hits = Inr cs'" and cs: "cs = c # cs'"
    by (auto split: sum.splits)
  from hit_content_markdown_text [OF c] Cons.IH [OF cs'] cs show ?case
    by simp
qed

text \<open>The result of a Tavily search always has a list under \<open>data\<close>.\<close>

lemma Tavily_search_shape:
  assumes "fst (Tavily_search env q t l) = Inr sr"
  shows "\<exists>hits answer. py_subscript sr (py ''data'') = Inr (PList hits) \<and>
           py_get sr (py ''answer'') (PStr []) = Inr answer"
proof -
  have empty: "\<exists>hits answer. py_subscript empty_response (py ''data'') = Inr (PList hits) \<and>
           py_get empty_response (py ''answer'') (PStr []) = Inr answer"
    by (simp add: empty_response_def)
  show ?thesis
  proof (cases "tavily_client_search env (tavily_request_of q l)")
    case (Inl e)
    with assms have "sr = empty_response"
      by (simp add: Tavily_search_def)
    with empty show ?thesis by simp
  next
    case (Inr response)
    show ?thesis
    proof (cases "fst (tavily_format response)")
      case (Inl e)
      with Inr assms have "sr = empty_response"
        by (cases "tavily_format response") (auto simp: Tavily_search_def Let_def)
      with empty show ?thesis by simp
    next
      case r: (Inr r)
      with Inr assms have sr: "sr = r"
        by (cases "tavily_format response") (auto simp: Tavily_search_def Let_def)
      from r consider (none) "r = empty_response"
        | (some) fd a where "r = PDict [(py ''data'', PList fd), (py ''answer'', a)]"
        unfolding tavily_format_def
        by (auto split: sum.splits if_splits)
      then show ?thesis
      proof cases
        case none
        with sr empty show ?thesis by simp
      next
        case some
        with sr show ?thesis by simp
      qed
    qed
  qed
qed

text \<open>The prompt of a run with search enhancement, from the search result.\<close>

lemma gather_context_on:
  assumes "fst (translate_to_english env q) = Inr q'"
    and "fst (engine_search env TAVILY q' 15000 5) = Inr sr"
    and "py_subscript sr (py ''data'') = Inr (PList hits)"
    and "py_get sr (py ''answer'') (PStr []) = Inr answer"
  shows "fst (gather_context env q True) =
           Inr (q',
                nl @ nl @ py ''Here is some background information about the topic:'' @ nl @
                concat (map (\<lambda>hit. content_block (trim_prompt (markdown_text hit) 15000))
                          (filter (\<lambda>hit. markdown_text hit \<noteq> []) hits)) @
                py_str env answer)"
proof -
  from assms(2) have tv: "fst (Tavily_search env q' 15000 5) = Inr sr"
    by (simp add: engine_search_def)
  from build_context_tavily [OF tv] obtain ctx where ctx: "build_context env sr = Inr ctx" ..
  with assms(3) obtain cs where cs: "for_each hit_content hits = Inr cs"
    by (auto simp: build_context_def contents_of_def split: sum.splits)
  from cs assms(3) have "contents_of sr = Inr (concat cs)"
    by (simp add: contents_of_def)
  with ctx assms(4) have "ctx =
      nl @ nl @ py ''Here is some background information about the topic:'' @ nl @
      concat (map content_block (concat cs)) @ py_str env answer"
    by (simp add: build_context_def)
  with for_each_hit_content [OF cs] have "ctx =
      nl @ nl @ py ''Here is some background information about the topic:'' @ nl @
      concat (map (\<lambda>hit. content_block (trim_prompt (markdown_text hit) 15000))
                (filter (\<lambda>hit. markdown_text hit \<noteq> []) hits)) @
      py_str env answer"
    by (simp add: o_def)
  with ctx assms(1,2) show ?thesis
    by (auto simp: gather_context_def split: prod.splits sum.splits)
qed

lemma last_model_call:
  assumes "fst (gather_context env q use) = Inr (q', ctx)"
  shows "last (filter is_model_call (snd (generate_feedback env q use)))
           = ChatCall (feedback_request env q' ctx)"
proof -
  obtain tr where "gather_context env q use = (Inr (q', ctx), tr)"
    using assms by (cases "gather_context env q use") simp
  from generate_feedback_after_context [OF this]
  show ?thesis
    by (simp add: parse_questions_no_calls split: sum.splits)
qed

text \<open>
  Claim C8, against the \<open>trim_prompt\<close> modelled from the spec. Take a run of
  \<open>generate_feedback\<close> with search enhancement: \<open>q'\<close> is the translated query,
  \<open>sr\<close> the result of the search, \<open>hits\<close> its data and \<open>answer\<close> its answer
  (every run has them: \<open>translate_never_raises\<close>, \<open>Tavily_search_total\<close>,
  \<open>Tavily_search_shape\<close>). The context in the prompt of the final model call is the
  introduction, then one block for every hit with a non-empty markdown, in order, holding
  that hit's markdown trimmed to 15000, then the answer, and nothing else. Every block's
  text is at most 15000 long, and for a hit whose markdown is longer than 15000 it is a
  proper prefix of the markdown, not the markdown. The bound is one per hit: the witness
  has two such hits and a context longer than twice the budget.
\<close>

theorem context_truncation_bound:
  assumes "fst (translate_to_english env q) = Inr q'"
    and "fst (engine_search env TAVILY q' 15000 5) = Inr sr"
    and "py_subscript sr (py ''data'') = Inr (PList hits)"
    and "py_get sr (py ''answer'') (PStr []) = Inr answer"
  shows "last (filter is_model_call (snd (generate_feedback env q True)))
           = ChatCall (feedback_request env q'
               (nl @ nl @ py ''Here is some background information about the topic:'' @ nl @
                concat (map (\<lambda>hit. content_block (trim_prompt (markdown_text hit) 15000))
                          (filter (\<lambda>hit. markdown_text hit \<noteq> []) hits)) @
                py_str env answer)) \<and>
         (\<forall>hit \<in> set hits. length (trim_prompt (markdown_text hit) 15000) \<le> 15000) \<and>
         (\<forall>hit \<in> set hits. 15000 < length (markdown_text hit) \<longrightarrow>
            trim_prompt (markdown_text hit) 15000 \<noteq> markdown_text hit \<and>
            (\<exists>rest. rest \<noteq> [] \<and> markdown_text hit = trim_prompt (markdown_text hit) 15000 @ rest))"
proof (intro conjI ballI impI)
  show "last (filter is_model_call (snd (generate_feedback env q True)))
           = ChatCall (feedback_request env q'
               (nl @ nl @ py ''Here is some background information about the topic:'' @ nl @
                concat (map (\<lambda>hit. content_block (trim_prompt (markdown_text hit) 15000))
                          (filter (\<lambda>hit. markdown_text hit \<noteq> []) hits)) @
                py_str env answer))"
    by (rule last_model_call [OF gather_context_on [OF assms]])
next
  fix hit
  show "length (trim_prompt (markdown_text hit) 15000) \<le> 15000"
    by (simp add: trim_prompt_def)
next
  fix hit
  assume long: "15000 < length (markdown_text hit)"
  then have "length (trim_prompt (markdown_text hit) 15000) \<noteq> length (markdown_text hit)"
    by (simp add: trim_prompt_def)
  then show "trim_prompt (markdown_text hit) 15000 \<noteq> markdown_text hit"
    by auto
next
  fix hit
  assume long: "15000 < length (markdown_text hit)"
  have "markdown_text hit = trim_prompt (markdown_text hit) 15000 @ drop 15000 (markdown_text hit)"
    by (simp add: trim_prompt_def)
  moreover from long have "drop 15000 (markdown_text hit) \<noteq> []"
    by simp
  ultimately show "\<exists>rest. rest \<noteq> [] \<and>
      markdown_text hit = trim_prompt (markdown_text hit) 15000 @ rest"
    by blast
qed

theorem context_truncation_bound_witness:
  "last (filter is_model_call
           (snd (generate_feedback long_results_env (py ''quantum computing'') True)))
     = ChatCall (feedback_request long_results_env (PStr (py ''quantum computing''))
         (nl @ nl @ py ''Here is some background information about the topic:'' @ nl @
          content_block (nl @ replicate 14999 97) @ content_block (nl @ replicate 14999 98) @
          py ''Summary.'')) \<and>
   length (nl @ replicate 14999 (97::nat)) = 15000 \<and>
   2 * 15000 <
     length (nl @ nl @ py ''Here is some background information about the topic:'' @ nl @
             content_block (nl @ replicate 14999 97) @ content_block (nl @ replicate 14999 98) @
             py ''Summary.'')"
proof -
  let ?q = "py ''quantum computing''"
  let ?hit = "\<lambda>c::nat. PDict [(py ''title'', PStr (py ''T'')),
                             (py ''url'', PStr (py ''https://a.example'')),
                             (py ''markdown'', PStr (nl @ replicate 15001 c))]"
  let ?sr = "PDict [(py ''data'', PList [?hit 97, ?hit 98]), (py ''answer'', PStr (py ''Summary.''))]"
  have h1: "fst (translate_to_english long_results_env ?q) = Inr (PStr ?q)"
    by (simp add: translate_to_english_def translate_try_no_cjk no_cjk_py)
  have item: "tavily_item (long_item c) = Inr (?hit c)" for c
    by (simp add: tavily_item_def long_item_def)
  have h2: "fst (engine_search long_results_env TAVILY (PStr ?q) 15000 5) = Inr ?sr"
    by (simp add: engine_search_def Tavily_search_def tavily_format_def item
        long_results_env_def replying_env_def)
  have h3: "py_subscript ?sr (py ''data'') = Inr (PList [?hit 97, ?hit 98])"
    by simp
  have h4: "py_get ?sr (py ''answer'') (PStr []) = Inr (PStr (py ''Summary.''))"
    by simp
  have mt: "markdown_text (?hit c) = nl @ replicate 15001 c" for c
    by (simp add: markdown_text_def)
  have tp: "trim_prompt (nl @ replicate 15001 c) 15000 = nl @ replicate 14999 c" for c :: nat
    by (simp add: trim_prompt_def nl_def)
  have nonempty: "nl @ replicate 15001 c \<noteq> []" for c :: nat
    by (simp add: nl_def)
  from context_truncation_bound [OF h1 h2 h3 h4]
  have "last (filter is_model_call (snd (generate_feedback long_results_env ?q True)))
     = ChatCall (feedback_request long_results_env (PStr ?q)
         (nl @ nl @ py ''Here is some background information about the topic:'' @ nl @
          content_block (nl @ replicate 14999 97) @ content_block (nl @ replicate 14999 98) @
          py ''Summary.''))"
    by (simp add: mt tp nonempty py_str_def)
  moreover have "length (nl @ replicate 14999 (97::nat)) = 15000"
    by (simp add: nl_def)
  moreover have "2 * 15000 <
     length (nl @ nl @ py ''Here is some background information about the topic:'' @ nl @
             content_block (nl @ replicate 14999 97) @ content_block (nl @ replicate 14999 98) @
             py ''Summary.'')"
    by (simp add: content_block_def nl_def)
  ultimately show ?thesis by blast
qed

section \<open>The limit of a search\<close>

lemma Firecrawl_search_limit_unused: "Firecrawl_search env q t l = Firecrawl_search env q t' l'"
  by (simp add: Firecrawl_search_def)

lemma Tavily_search_requests_limit:
  "filter is_search_call (snd (Tavily_search env q t l)) = [TavilyCall (tavily_request_of q l)] \<and>
   max_results (tavily_request_of q l) = l"
  by (simp add: Tavily_search_def tavily_request_of_def tavily_format_def Let_def
      split: sum.splits prod.splits if_splits)

text \<open>
  Claim C5 asks that both backends pass \<open>limit\<close> to the provider. Tavily does
  (\<open>Tavily_search_requests_limit\<close>). Firecrawl sends the query alone: asked for one
  hit, of an SDK that answers with two, it returns both.
\<close>

theorem firecrawl_ignores_limit:
  "Firecrawl_search two_hits_env (PStr (py ''llm agents'')) 15000 1
     = (Inr (PDict [(py ''data'', PList two_hits)]),
        [FirecrawlCall \<lparr> fc_query = PStr (py ''llm agents'') \<rparr>]) \<and>
   length two_hits = 2"
  by (simp add: Firecrawl_search_def firecrawl_format_def firecrawl_item_def two_hits_env_def
      two_hits_def)

section \<open>The combined query\<close>

lemma zip_by_index:
  "zip xs ys = map (\<lambda>i. (xs ! i, ys ! i)) [0..<min (length xs) (length ys)]"
  by (rule nth_equalityI) simp_all

text \<open>
  Claim C7. For the query \<open>Topic\<close>, the questions \<open>Q1, Q2\<close> and the answers
  \<open>A1, A2\<close> the combined query is exactly the text of the spec; and in general it is
  the two header lines followed by the blocks \<open>Q: ... A: ...\<close> of the pairs, joined
  by newlines.
\<close>

theorem combined_query_framing:
  "get_combined_query
     (set_answers (set_questions (set_query new_session (py ''Topic'')) [py ''Q1'', py ''Q2''])
        [py ''A1'', py ''A2''])
     = py ''Initial Query: Topic\<newline>Follow-up Questions and Answers:\<newline>Q: Q1\<newline>A: A1\<newline>Q: Q2\<newline>A: A2'' \<and>
   get_combined_query s
     = py ''Initial Query: '' @ query s @ py ''\<newline>Follow-up Questions and Answers:\<newline>'' @
       join (py ''\<newline>'')
         (map (\<lambda>(q, a). py ''Q: '' @ q @ py ''\<newline>A: '' @ a) (zip (questions s) (answers s)))"
proof
  show "get_combined_query
     (set_answers (set_questions (set_query new_session (py ''Topic'')) [py ''Q1'', py ''Q2''])
        [py ''A1'', py ''A2''])
     = py ''Initial Query: Topic\<newline>Follow-up Questions and Answers:\<newline>Q: Q1\<newline>A: A1\<newline>Q: Q2\<newline>A: A2''"
    by (simp add: get_combined_query_def set_answers_def set_questions_def set_query_def
        new_session_def qa_block_def nl_def py_def)
next
  have "qa_block = (\<lambda>(q, a). py ''Q: '' @ q @ py ''\<newline>A: '' @ a)"
    by (auto simp: qa_block_def fun_eq_iff nl_def py_def)
  then show "get_combined_query s
     = py ''Initial Query: '' @ query s @ py ''\<newline>Follow-up Questions and Answers:\<newline>'' @
       join (py ''\<newline>'')
         (map (\<lambda>(q, a). py ''Q: '' @ q @ py ''\<newline>A: '' @ a) (zip (questions s) (answers s)))"
    by (simp add: get_combined_query_def nl_def py_def)
qed

text \<open>
  Claim C10. The combined query pairs the question and the answer of the same index, for
  the indices both lists have; the questions beyond the stored answers do not appear; and
  when the blank second answer of three is filtered out before storage, the third answer
  comes under the second question and the third question is dropped, with no error.
\<close>

theorem combined_query_pairs_by_position:
  "get_combined_query s
     = py ''Initial Query: '' @ query s @ nl @ py ''Follow-up Questions and Answers:'' @ nl @
       join nl
         (map (\<lambda>i. py ''Q: '' @ questions s ! i @ nl @ py ''A: '' @ answers s ! i)
            [0..<min (length (questions s)) (length (answers s))]) \<and>
   get_combined_query s
     = get_combined_query (s\<lparr>questions := take (length (answers s)) (questions s)\<rparr>) \<and>
   get_combined_query
     (on_start_research_async
        (set_questions (set_query new_session (py ''Topic'')) [py ''Q1'', py ''Q2'', py ''Q3''])
        [py ''A1'', py ''  '', py ''A3''] (py ''en'') 4 2)
     = py ''Initial Query: Topic\<newline>Follow-up Questions and Answers:\<newline>Q: Q1\<newline>A: A1\<newline>Q: Q2\<newline>A: A3''"
proof (intro conjI)
  show "get_combined_query s
     = py ''Initial Query: '' @ query s @ nl @ py ''Follow-up Questions and Answers:'' @ nl @
       join nl
         (map (\<lambda>i. py ''Q: '' @ questions s ! i @ nl @ py ''A: '' @ answers s ! i)
            [0..<min (length (questions s)) (length (answers s))])"
    by (simp add: get_combined_query_def zip_by_index [of "questions s"] qa_block_def o_def)
next
  have "zip (take (length (answers s)) (questions s)) (answers s) = zip (questions s) (answers s)"
    by (rule nth_equalityI) simp_all
  then show "get_combined_query s
     = get_combined_query (s\<lparr>questions := take (length (answers s)) (questions s)\<rparr>)"
    by (simp add: get_combined_query_def)
next
  have blank: "strip (py ''  '') = []" and a1: "strip (py ''A1'') \<noteq> []" and a3: "strip (py ''A3'') \<noteq> []"
    by (simp_all add: strip_def is_space_def py_def)
  show "get_combined_query
     (on_start_research_async
        (set_questions (set_query new_session (py ''Topic'')) [py ''Q1'', py ''Q2'', py ''Q3''])
        [py ''A1'', py ''  '', py ''A3''] (py ''en'') 4 2)
     = py ''Initial Query: Topic\<newline>Follow-up Questions and Answers:\<newline>Q: Q1\<newline>A: A1\<newline>Q: Q2\<newline>A: A3''"
    by (simp add: on_start_research_async_def blank a1 a3 get_combined_query_def set_answers_def
        set_questions_def set_query_def new_session_def qa_block_def)
      (simp add: nl_def py_def)
qed

end
